theory Spec2Isabelle
  imports Complex_Main "HOL-Library.Log_Nat"
begin

section \<open>RMV stainless-steel fabrication backend: the workflow core\<close>

text \<open>
  A shallow embedding of the Mongoose models (\<open>models/Project.js\<close>, \<open>models/Payment.js\<close>,
  \<open>models/Appointment.js\<close>) and of the request handlers of the appointment, project and
  payment controllers.

  Conventions of the embedding.
  \<^item> A collection is the list of its documents, in insertion order; the database is a record
    of the four collections. A handler takes the request and the database and returns the
    response together with the database it leaves behind, so that a handler which throws
    after a \<open>save()\<close> is seen to have persisted what it saved.
  \<^item> A JavaScript \<open>Number\<close> that the code computes with (a total, an amount, a percentage)
    is a \<open>number\<close>: an IEEE 754 double, given by the rational it denotes, or an infinity, or
    \<open>NaN\<close>. Each arithmetic operation rounds the exact result to the nearest double. The sign
    of zero, which no modelled operation observes, is not kept; what the schema's cast to
    \<open>Number\<close> does with a \<open>NaN\<close> (only an overflow to an infinity produces one) is not
    modelled. A \<open>Number\<close> that a handler only stores and prints is a whole amount, an \<open>int\<close>.
  \<^item> A \<open>Date\<close> is its time value: milliseconds since the epoch, an \<open>int\<close>. The local time
    zone of the server is taken to be UTC.
  \<^item> An optional path of a schema (\<open>undefined\<close> until assigned) is an \<open>option\<close>.
  \<^item> E-mail and activity-log calls are external collaborators and are not modelled; where
    the handler reads a populated document to build their arguments, the read is modelled.
  \<^item> A string is the list of the UTF-8 bytes of its text. The notes the handlers compose
    are kept in ASCII: the currency sign of a note is left out.
\<close>

subsection \<open>Values shared by the models\<close>

type_synonym ObjectId = nat
type_synonym Date = int

datatype role = customer_role | appointment_agent | sales_staff | engineer | cashier
  | fabrication_staff | admin

text \<open>\<open>AppError(message, statusCode)\<close> of the middleware; the other constructors are the
  errors raised by the runtime and by Mongoose.\<close>

datatype error = AppError string nat | TypeError | ValidationError | DuplicateKeyError

datatype response = Success | Failure error

subsection \<open>JavaScript numbers\<close>

datatype number = Finite rat | Infinity bool | NaN

text \<open>The binary exponent of a non-zero rational: \<open>2^e \<le> |x| < 2^(e+1)\<close>.\<close>

definition exponent :: "rat \<Rightarrow> int" where
  "exponent x =
     (if 1 \<le> \<bar>x\<bar> then bitlen \<lfloor>\<bar>x\<bar>\<rfloor> - 1 else - bitlen (\<lceil>1 / \<bar>x\<bar>\<rceil> - 1))"

definition roundTiesToEven :: "rat \<Rightarrow> int" where
  "roundTiesToEven k =
     (let f = \<lfloor>k\<rfloor>; r = k - of_int f
      in if r < 1 / 2 then f else if 1 / 2 < r then f + 1 else if even f then f else f + 1)"

text \<open>The double nearest to a rational, ties to even: 53 significant bits, the spacing of
  the subnormal numbers below \<open>2^-1022\<close>, and an infinity when the rounded value reaches
  \<open>2^1024\<close>. \<open>Infinity True\<close> is \<open>+Infinity\<close>.\<close>

definition toNumber :: "rat \<Rightarrow> number" where
  "toNumber x =
     (if x = 0 then Finite 0
      else let ulp = 2 powi (max (exponent x) (- 1022) - 52);
               y = of_int (roundTiesToEven (x / ulp)) * ulp
           in if 2 ^ 1024 \<le> \<bar>y\<bar> then Infinity (0 < x) else Finite y)"

text \<open>The operators \<open>*\<close>, \<open>/\<close>, \<open>+\<close>, unary and binary \<open>-\<close> on Numbers.\<close>

fun Number_multiply :: "number \<Rightarrow> number \<Rightarrow> number" where
  "Number_multiply (Finite x) (Finite y) = toNumber (x * y)"
| "Number_multiply (Finite x) (Infinity s) = (if x = 0 then NaN else Infinity ((0 < x) = s))"
| "Number_multiply (Infinity s) (Finite y) = (if y = 0 then NaN else Infinity ((0 < y) = s))"
| "Number_multiply (Infinity s) (Infinity s') = Infinity (s = s')"
| "Number_multiply NaN b = NaN"
| "Number_multiply a NaN = NaN"

fun Number_divide :: "number \<Rightarrow> number \<Rightarrow> number" where
  "Number_divide (Finite x) (Finite y) =
     (if y = 0 then (if x = 0 then NaN else Infinity (0 < x)) else toNumber (x / y))"
| "Number_divide (Finite x) (Infinity s) = Finite 0"
| "Number_divide (Infinity s) (Finite y) = Infinity ((0 \<le> y) = s)"
| "Number_divide (Infinity s) (Infinity s') = NaN"
| "Number_divide NaN b = NaN"
| "Number_divide a NaN = NaN"

fun Number_add :: "number \<Rightarrow> number \<Rightarrow> number" where
  "Number_add (Finite x) (Finite y) = toNumber (x + y)"
| "Number_add (Finite x) (Infinity s) = Infinity s"
| "Number_add (Infinity s) (Finite y) = Infinity s"
| "Number_add (Infinity s) (Infinity s') = (if s = s' then Infinity s else NaN)"
| "Number_add NaN b = NaN"
| "Number_add a NaN = NaN"

fun Number_unaryMinus :: "number \<Rightarrow> number" where
  "Number_unaryMinus (Finite x) = Finite (- x)"
| "Number_unaryMinus (Infinity s) = Infinity (\<not> s)"
| "Number_unaryMinus NaN = NaN"

definition Number_subtract :: "number \<Rightarrow> number \<Rightarrow> number" where
  "Number_subtract a b = Number_add a (Number_unaryMinus b)"

text \<open>\<open>Math.round\<close>: the nearest integer, a tie going up (\<open>round x\<close> is \<open>\<lfloor>x + 1/2\<rfloor>\<close>). The
  result is exact: a double that is not an integer lies below \<open>2^52\<close>.\<close>

fun Math_round :: "number \<Rightarrow> number" where
  "Math_round (Finite x) = Finite (of_int (round x))"
| "Math_round (Infinity s) = Infinity s"
| "Math_round NaN = NaN"

text \<open>A Number in a condition: \<open>0\<close> and \<open>NaN\<close> are falsy.\<close>

definition truthy :: "number \<Rightarrow> bool" where
  "truthy x = (x \<noteq> Finite 0 \<and> x \<noteq> NaN)"

subsection \<open>Paths shared by the models\<close>

text \<open>One element of a \<open>statusHistory\<close> array (\<open>changedAt\<close>, a default timestamp, is left out).\<close>

record 's statusEntry =
  entryStatus :: 's
  changedBy :: ObjectId
  entryNotes :: string

text \<open>The paths every model has: \<open>_id\<close> and the soft-delete flag.\<close>

record entity =
  ident :: ObjectId
  isDeleted :: bool

text \<open>The paths every workflow document has besides: the owning customer, \<open>createdAt\<close>
  (from \<open>timestamps: true\<close>), the status and its history.\<close>

record 's document = entity +
  customer :: ObjectId
  createdAt :: Date
  status :: 's
  statusHistory :: "'s statusEntry list"

subsection \<open>models/User.js\<close>

record user = entity +
  role :: role
  isActive :: bool
  firstName :: string
  lastName :: string

subsection \<open>models/Project.js\<close>

datatype projectStatus = draft | pending_blueprint | blueprint_submitted
  | pending_customer_approval | revision_requested | approved | pending_initial_payment
  | initial_payment_verified | in_fabrication | pending_midpoint_payment
  | midpoint_payment_verified | ready_for_installation | in_installation
  | pending_final_payment | completed | cancelled | on_hold

record costingVersion =
  version :: nat
  totalAmount :: "number option"

record approvedVersion =
  blueprintVersion :: nat
  costingVersionNo :: nat

record customerApproval =
  isApproved :: bool
  approvedAt :: "Date option"
  approvedVersions :: "approvedVersion option"

record stageInfo =
  percentage :: number
  amount :: "number option"

record paymentStages =
  initialStage :: stageInfo
  midpointStage :: stageInfo
  finalStage :: stageInfo

record project = "projectStatus document" +
  blueprintCurrentVersion :: nat
  costingCurrentVersion :: nat
  costingVersions :: "costingVersion list"
  approvedAmount :: "number option"
  approval :: customerApproval
  stages :: paymentStages
  fabricationStartedAt :: "Date option"

text \<open>The second \<open>pre('save')\<close> hook of the project schema. Its guard
  \<^verbatim>\<open>if (this.costing?.approvedAmount)\<close> is a truthiness test: it fails on \<open>undefined\<close> and
  on the numbers \<open>0\<close> and \<open>NaN\<close>.\<close>

definition calculateStageAmounts :: "project \<Rightarrow> project" where
  "calculateStageAmounts p =
     (case approvedAmount p of
        None \<Rightarrow> p
      | Some total' \<Rightarrow>
          if \<not> truthy total' then p
          else
            let ps = stages p;
                i = Math_round (Number_divide
                      (Number_multiply total' (percentage (initialStage ps))) (Finite 100));
                m = Math_round (Number_divide
                      (Number_multiply total' (percentage (midpointStage ps))) (Finite 100));
                f = Number_subtract (Number_subtract total' i) m
            in p\<lparr>stages := ps\<lparr>initialStage := (initialStage ps)\<lparr>amount := Some i\<rparr>,
                                  midpointStage := (midpointStage ps)\<lparr>amount := Some m\<rparr>,
                                  finalStage := (finalStage ps)\<lparr>amount := Some f\<rparr>\<rparr>\<rparr>)"

subsection \<open>models/Payment.js\<close>

datatype stage = initial | midpoint | final

datatype paymentStatus = pending | submitted | verified | rejected

datatype paymentMethod = gcash | bank_transfer | cash | other

text \<open>\<open>req.file\<close>, as the upload middleware leaves it.\<close>

record uploadedFile =
  filename :: string
  originalName :: string
  path :: string

record paymentProof =
  proofFile :: uploadedFile
  uploadedAt :: Date

record verification =
  verifiedBy :: ObjectId
  verifiedAt :: Date
  verificationNotes :: "string option"
  referenceNumber :: "string option"

record rejection =
  rejectedBy :: ObjectId
  rejectedAt :: Date
  reason :: string

record receipt =
  receiptNumber :: string
  generatedAt :: Date

record payment = "paymentStatus document" +
  project :: ObjectId
  stage :: stage
  expected :: number
  received :: "int option"
  paymentMethod :: "paymentMethod option"
  paymentProof :: "paymentProof option"
  verification :: "verification option"
  rejection :: "rejection option"
  receipt :: "receipt option"

subsection \<open>models/Appointment.js\<close>

datatype appointmentType = office_consultation | ocular_visit

datatype appointmentStatus = pending | scheduled | confirmed | in_progress | completed
  | cancelled | no_show

record cancellation =
  cancelledBy :: ObjectId
  cancelledAt :: Date
  cancellationReason :: string
  isWithinPolicy :: bool

record appointment = "appointmentStatus document" +
  assignedSalesStaff :: "ObjectId option"
  scheduledDate :: Date
  scheduledEndDate :: Date
  appointmentType :: appointmentType
  siteAddress :: "string option"
  cancellation :: "cancellation option"
  salesNotes :: "string option"

subsection \<open>The database and the Mongoose queries\<close>

record db =
  users :: "user list"
  appointments :: "appointment list"
  projects :: "project list"
  payments :: "payment list"

text \<open>The query middleware every schema registers:
  \<^verbatim>\<open>schema.pre(/^find/, function (next) { if (this.getOptions().includeDeleted !== true) this.where({ isDeleted: { $ne: true } }); next(); })\<close>
  It runs for the operations whose name starts with \<open>find\<close> (\<open>find\<close>, \<open>findOne\<close>, and
  \<open>findById\<close>, which is a \<open>findOne\<close>), also when \<open>populate\<close> issues them; it does not run for
  \<open>countDocuments\<close> and \<open>updateOne\<close>.\<close>

definition preFind :: "bool \<Rightarrow> ('a entity_scheme) list \<Rightarrow> ('a entity_scheme) list" where
  "preFind includeDeleted xs =
     (if includeDeleted \<noteq> True then filter (\<lambda>d. isDeleted d \<noteq> True) xs else xs)"

definition findWith :: "bool \<Rightarrow> ('a entity_scheme \<Rightarrow> bool) \<Rightarrow> ('a entity_scheme) list
    \<Rightarrow> ('a entity_scheme) list" where
  "findWith includeDeleted cond xs = filter cond (preFind includeDeleted xs)"

definition findOne :: "('a entity_scheme \<Rightarrow> bool) \<Rightarrow> ('a entity_scheme) list
    \<Rightarrow> ('a entity_scheme) option" where
  "findOne cond xs = find cond (preFind False xs)"

definition findById :: "ObjectId \<Rightarrow> ('a entity_scheme) list \<Rightarrow> ('a entity_scheme) option" where
  "findById i xs = findOne (\<lambda>d. ident d = i) xs"

definition countDocuments :: "('a entity_scheme \<Rightarrow> bool) \<Rightarrow> ('a entity_scheme) list \<Rightarrow> nat" where
  "countDocuments cond xs = length (filter cond xs)"


text \<open>\<open>doc.save()\<close> of a document that was loaded from the collection writes it back under
  its \<open>_id\<close>.\<close>

definition writeBack :: "'a entity_scheme \<Rightarrow> ('a entity_scheme) list \<Rightarrow> ('a entity_scheme) list" where
  "writeBack x xs = map (\<lambda>d. if ident d = ident x then x else d) xs"

text \<open>A new \<open>_id\<close> is one that no document of the collection has.\<close>

definition newObjectId :: "('a entity_scheme) list \<Rightarrow> ObjectId" where
  "newObjectId xs = Suc (fold max (map ident xs) 0)"

subsection \<open>Dates, strings and configuration\<close>

text \<open>\<open>config.business\<close>.\<close>

definition appointmentHours_start :: int where "appointmentHours_start = 9"
definition appointmentHours_end :: int where "appointmentHours_end = 18"
definition slotDurationMinutes :: int where "slotDurationMinutes = 60"

definition getHours :: "Date \<Rightarrow> int" where
  "getHours t = (t div 3600000) mod 24"

definition getMinutes :: "Date \<Rightarrow> int" where
  "getMinutes t = (t div 60000) mod 60"


definition setMinutes :: "Date \<Rightarrow> int \<Rightarrow> Date" where
  "setMinutes t m = t + (m - getMinutes t) * 60000"

text \<open>The Gregorian calendar: the day number of a civil date and back (month \<open>1..12\<close>).\<close>

definition daysFromCivil :: "int \<Rightarrow> int \<Rightarrow> int \<Rightarrow> int" where
  "daysFromCivil y m d =
     (let y' = (if m \<le> 2 then y - 1 else y);
          era = y' div 400;
          yoe = y' - era * 400;
          doy = (153 * (if m > 2 then m - 3 else m + 9) + 2) div 5 + d - 1;
          doe = yoe * 365 + yoe div 4 - yoe div 100 + doy
      in era * 146097 + doe - 719468)"

definition civilFromDays :: "int \<Rightarrow> int \<times> int \<times> int" where
  "civilFromDays z0 =
     (let z = z0 + 719468;
          era = z div 146097;
          doe = z - era * 146097;
          yoe = (doe - doe div 1460 + doe div 36524 - doe div 146096) div 365;
          doy = doe - (365 * yoe + yoe div 4 - yoe div 100);
          mp = (5 * doy + 2) div 153;
          d = doy - (153 * mp + 2) div 5 + 1;
          m = (if mp < 10 then mp + 3 else mp - 9)
      in (if m \<le> 2 then yoe + era * 400 + 1 else yoe + era * 400, m, d))"

definition getFullYear :: "Date \<Rightarrow> int" where
  "getFullYear t = fst (civilFromDays (t div 86400000))"

text \<open>\<open>getMonth()\<close> counts from \<open>0\<close>.\<close>

definition getMonth :: "Date \<Rightarrow> int" where
  "getMonth t = fst (snd (civilFromDays (t div 86400000))) - 1"

text \<open>\<open>new Date(year, monthIndex, day)\<close>: midnight of that day.\<close>

definition newDate :: "int \<Rightarrow> int \<Rightarrow> int \<Rightarrow> Date" where
  "newDate y monthIndex d = daysFromCivil y (monthIndex + 1) d * 86400000"

text \<open>\<open>String(n)\<close> of a natural number.\<close>

definition digitChar :: "nat \<Rightarrow> char" where
  "digitChar n = char_of (48 + n)"

function toString :: "nat \<Rightarrow> string" where
  "toString n = (if n < 10 then [digitChar n] else toString (n div 10) @ [digitChar (n mod 10)])"
  by pat_completeness auto
termination
  by (relation "measure id") auto

declare toString.simps [simp del]

definition numberToString :: "int \<Rightarrow> string" where
  "numberToString n = (if n < 0 then ''-'' @ toString (nat (- n)) else toString (nat n))"

definition padStart :: "nat \<Rightarrow> char \<Rightarrow> string \<Rightarrow> string" where
  "padStart n c s = replicate (n - length s) c @ s"





text \<open>What the handlers read of the request: \<open>req.userId\<close> and \<open>req.userRole\<close> (set by the
  authentication middleware) and \<open>req.params.id\<close>.\<close>

record request =
  userId :: ObjectId
  userRole :: role
  paramsId :: ObjectId

subsection \<open>controllers/appointmentController.js\<close>

text \<open>The \<open>pre('save')\<close> hook of the appointment schema, for a new document.\<close>

definition calculateEndTime :: "appointment \<Rightarrow> appointment" where
  "calculateEndTime a =
     a\<lparr>scheduledEndDate :=
         setMinutes (scheduledDate a) (getMinutes (scheduledDate a) + slotDurationMinutes)\<rparr>"

text \<open>The filter of the conflict query:
  \<^verbatim>\<open>{ assignedSalesStaff: staff._id, scheduledDate: date, status: { $nin: ['cancelled', 'no_show'] } }\<close>\<close>

definition conflictQuery :: "ObjectId \<Rightarrow> Date \<Rightarrow> appointment \<Rightarrow> bool" where
  "conflictQuery staffId date a =
     (assignedSalesStaff a = Some staffId \<and> scheduledDate a = date
      \<and> status a \<notin> {appointmentStatus.cancelled, no_show})"

text \<open>The loop \<^verbatim>\<open>for (const staff of salesStaffList) { const conflict = await Appointment.findOne(...); if (!conflict) { autoAssignedSalesStaff = staff; break; } }\<close>
  On an empty list it leaves \<open>autoAssignedSalesStaff\<close> at \<open>null\<close>, as the guard
  \<open>salesStaffList.length > 0\<close> around it does.\<close>

fun scanStaff :: "appointment list \<Rightarrow> Date \<Rightarrow> user list \<Rightarrow> user option" where
  "scanStaff apts date [] = None"
| "scanStaff apts date (staff # rest) =
     (case findOne (conflictQuery (ident staff) date) apts of
        None \<Rightarrow> Some staff
      | Some conflict \<Rightarrow> scanStaff apts date rest)"

definition createAppointment ::
  "request \<Rightarrow> Date \<Rightarrow> appointmentType \<Rightarrow> string option \<Rightarrow> Date \<Rightarrow> db \<Rightarrow> response \<times> db" where
  "createAppointment req date appointmentType' siteAddress' now d =
     (let hour = getHours date in
      if hour < appointmentHours_start \<or> hour \<ge> appointmentHours_end then
        (Failure (AppError ''Appointments must be scheduled between 9:00 and 18:00'' 400), d)
      else
        let autoAssignedSalesStaff =
              (if appointmentType' = ocular_visit then
                 scanStaff (appointments d) date
                   (findWith False (\<lambda>u. role u = sales_staff \<and> isActive u = True) (users d))
               else None);
            initialStatus =
              (if autoAssignedSalesStaff \<noteq> None then scheduled else appointmentStatus.pending);
            appointment = calculateEndTime
              \<lparr>ident = newObjectId (appointments d), isDeleted = False,
               customer = userId req, createdAt = now, status = initialStatus,
               statusHistory =
                 [\<lparr>entryStatus = appointmentStatus.pending, changedBy = userId req,
                   entryNotes = ''Appointment booked by customer''\<rparr>]
                 @ (case autoAssignedSalesStaff of
                      Some staff \<Rightarrow>
                        [\<lparr>entryStatus = scheduled, changedBy = userId req,
                          entryNotes = ''Auto-assigned to '' @ firstName staff @ '' ''
                            @ lastName staff\<rparr>]
                    | None \<Rightarrow> []),
               assignedSalesStaff = map_option ident autoAssignedSalesStaff,
               scheduledDate = date, scheduledEndDate = date,
               appointmentType = appointmentType',
               siteAddress = (if appointmentType' = ocular_visit then siteAddress' else None),
               cancellation = None, salesNotes = None\<rparr>
        in (Success, d\<lparr>appointments := appointments d @ [appointment]\<rparr>))"



definition markNoShow :: "request \<Rightarrow> db \<Rightarrow> response \<times> db" where
  "markNoShow req d =
     (case findById (paramsId req) (appointments d) of
        None \<Rightarrow> (Failure (AppError ''Appointment not found'' 404), d)
      | Some appointment \<Rightarrow>
          let appointment' = appointment
                \<lparr>status := no_show,
                 statusHistory := statusHistory appointment
                   @ [\<lparr>entryStatus = no_show, changedBy = userId req,
                       entryNotes = ''Customer did not show up''\<rparr>]\<rparr>
          in (Success, d\<lparr>appointments := writeBack appointment' (appointments d)\<rparr>))"

subsection \<open>The project controller: approveProject\<close>

text \<open>\<open>project.save()\<close> runs the stage-amount hook on the document and writes it back.\<close>

definition saveProject :: "project \<Rightarrow> db \<Rightarrow> db" where
  "saveProject p d = d\<lparr>projects := writeBack (calculateStageAmounts p) (projects d)\<rparr>"

text \<open>\<open>Payment.create([...])\<close> saves each document of the array on its own. A document
  without \<open>amount.expected\<close> fails the \<open>required\<close> validator; one whose \<open>(project, stage)\<close>
  pair is in the collection already fails the unique index
  \<^verbatim>\<open>paymentSchema.index({ project: 1, stage: 1 }, { unique: true })\<close>. The call reports the
  first error; the documents that did not fail are in the collection.\<close>

record paymentInput =
  inProject :: ObjectId
  inCustomer :: ObjectId
  inStage :: stage
  inExpected :: "number option"
  inStatus :: paymentStatus

definition newPayment :: "ObjectId \<Rightarrow> Date \<Rightarrow> paymentInput \<Rightarrow> number \<Rightarrow> payment" where
  "newPayment i now x e =
     \<lparr>ident = i, isDeleted = False, customer = inCustomer x,
      createdAt = now, status = inStatus x, statusHistory = [],
      project = inProject x, stage = inStage x, expected = e,
      received = None, paymentMethod = None, paymentProof = None,
      verification = None, rejection = None, receipt = None\<rparr>"

fun Payment_create :: "Date \<Rightarrow> paymentInput list \<Rightarrow> payment list \<Rightarrow> error option \<times> payment list" where
  "Payment_create now [] ps = (None, ps)"
| "Payment_create now (x # xs) ps =
     (case inExpected x of
        None \<Rightarrow> (Some ValidationError, snd (Payment_create now xs ps))
      | Some e \<Rightarrow>
          if list_ex (\<lambda>q. project q = inProject x \<and> stage q = inStage x) ps then
            (Some DuplicateKeyError, snd (Payment_create now xs ps))
          else
            Payment_create now xs (ps @ [newPayment (newObjectId ps) now x e]))"

text \<open>\<open>versions[versions.length - 1]\<close>: \<open>undefined\<close> on an empty array.\<close>

definition lastElement :: "'a list \<Rightarrow> 'a option" where
  "lastElement xs = (if xs = [] then None else Some (last xs))"

definition approveProject :: "request \<Rightarrow> Date \<Rightarrow> db \<Rightarrow> response \<times> db" where
  "approveProject req now d =
     (case findById (paramsId req) (projects d) of
        None \<Rightarrow> (Failure (AppError ''Project not found'' 404), d)
      | Some project0 \<Rightarrow>
          if customer project0 \<noteq> userId req then (Failure (AppError ''Access denied'' 403), d)
          else if status project0 \<noteq> pending_customer_approval then
            (Failure (AppError ''Project is not pending approval'' 400), d)
          else
            (case lastElement (costingVersions project0) of
               None \<Rightarrow> (Failure TypeError, d)
             | Some latestCosting \<Rightarrow>
                 let project1 = calculateStageAmounts (project0
                       \<lparr>approval := \<lparr>isApproved = True, approvedAt = Some now,
                          approvedVersions = Some
                            \<lparr>blueprintVersion = blueprintCurrentVersion project0,
                             costingVersionNo = costingCurrentVersion project0\<rparr>\<rparr>,
                        approvedAmount := totalAmount latestCosting,
                        status := approved,
                        statusHistory := statusHistory project0
                          @ [\<lparr>entryStatus = approved, changedBy = userId req,
                              entryNotes = ''Approved by customer''\<rparr>]\<rparr>);
                     d1 = d\<lparr>projects := writeBack project1 (projects d)\<rparr>;
                     created = Payment_create now
                       [\<lparr>inProject = ident project1, inCustomer = customer project1,
                         inStage = initial,
                         inExpected = amount (initialStage (stages project1)),
                         inStatus = paymentStatus.pending\<rparr>,
                        \<lparr>inProject = ident project1, inCustomer = customer project1,
                         inStage = midpoint,
                         inExpected = amount (midpointStage (stages project1)),
                         inStatus = paymentStatus.pending\<rparr>,
                        \<lparr>inProject = ident project1, inCustomer = customer project1,
                         inStage = final,
                         inExpected = amount (finalStage (stages project1)),
                         inStatus = paymentStatus.pending\<rparr>]
                       (payments d1);
                     d2 = d1\<lparr>payments := snd created\<rparr>
                 in (case fst created of
                       Some e \<Rightarrow> (Failure e, d2)
                     | None \<Rightarrow>
                         (Success,
                          saveProject (project1
                            \<lparr>status := pending_initial_payment,
                             statusHistory := statusHistory project1
                               @ [\<lparr>entryStatus = pending_initial_payment,
                                   changedBy = userId req,
                                   entryNotes = ''Waiting for initial 30% payment''\<rparr>]\<rparr>) d2))))"

subsection \<open>The payment controller\<close>

text \<open>\<open>Payment.generateReceiptNumber\<close>. The count is a \<open>countDocuments\<close> over the payments
  that have a receipt number and whose \<open>createdAt\<close> lies in the current year.\<close>

definition receiptCount :: "Date \<Rightarrow> payment list \<Rightarrow> nat" where
  "receiptCount now ps =
     (let year = getFullYear now in
      countDocuments (\<lambda>p. receipt p \<noteq> None \<and> newDate year 0 1 \<le> createdAt p
                          \<and> createdAt p < newDate (year + 1) 0 1) ps)"

definition generateReceiptNumber :: "Date \<Rightarrow> payment list \<Rightarrow> string" where
  "generateReceiptNumber now ps =
     (let year = getFullYear now;
          month = padStart 2 (CHR ''0'') (toString (nat (getMonth now + 1)));
          count = receiptCount now ps
      in ''RMV-RCT-'' @ toString (nat year) @ month @ ''-''
           @ padStart 4 (CHR ''0'') (toString (count + 1)))"

fun methodName :: "paymentMethod \<Rightarrow> string" where
  "methodName gcash = ''gcash''"
| "methodName bank_transfer = ''bank_transfer''"
| "methodName cash = ''cash''"
| "methodName other = ''other''"

text \<open>\<open>submitPaymentProof\<close>. \<open>req.file\<close> is \<open>undefined\<close> when nothing was uploaded. The project
  is populated and read (\<open>payment.project.projectNumber\<close>) after the save.\<close>

definition submitPaymentProof ::
  "request \<Rightarrow> paymentMethod \<Rightarrow> uploadedFile option \<Rightarrow> Date \<Rightarrow> db \<Rightarrow> response \<times> db" where
  "submitPaymentProof req paymentMethod' file now d =
     (case findById (paramsId req) (payments d) of
        None \<Rightarrow> (Failure (AppError ''Payment not found'' 404), d)
      | Some payment0 \<Rightarrow>
          if customer payment0 \<noteq> userId req then (Failure (AppError ''Access denied'' 403), d)
          else if status payment0 = verified then
            (Failure (AppError ''Payment has already been verified'' 400), d)
          else
            (case file of
               None \<Rightarrow> (Failure (AppError ''No file uploaded'' 400), d)
             | Some f \<Rightarrow>
                 let payment1 = payment0
                       \<lparr>paymentProof := Some \<lparr>proofFile = f, uploadedAt = now\<rparr>,
                        paymentMethod := Some paymentMethod',
                        status := submitted,
                        statusHistory := statusHistory payment0
                          @ [\<lparr>entryStatus = submitted, changedBy = userId req,
                              entryNotes = ''Payment proof submitted via ''
                                @ methodName paymentMethod'\<rparr>]\<rparr>;
                     d1 = d\<lparr>payments := writeBack payment1 (payments d)\<rparr>
                 in (case findById (project payment0) (projects d) of
                       None \<Rightarrow> (Failure TypeError, d1)
                     | Some populated \<Rightarrow> (Success, d1))))"

text \<open>The two lookup tables of \<open>verifyPayment\<close>.\<close>

fun stageStatusMap :: "stage \<Rightarrow> projectStatus" where
  "stageStatusMap initial = initial_payment_verified"
| "stageStatusMap midpoint = midpoint_payment_verified"
| "stageStatusMap final = projectStatus.completed"

fun expectedStatuses :: "stage \<Rightarrow> projectStatus" where
  "expectedStatuses initial = pending_initial_payment"
| "expectedStatuses midpoint = pending_midpoint_payment"
| "expectedStatuses final = pending_final_payment"

fun stageName :: "stage \<Rightarrow> string" where
  "stageName initial = ''initial''"
| "stageName midpoint = ''midpoint''"
| "stageName final = ''final''"

text \<open>The part of \<open>verifyPayment\<close> after the payment is saved: the owning project advances
  only from the status expected for the stage.\<close>

definition advanceProject :: "request \<Rightarrow> stage \<Rightarrow> Date \<Rightarrow> project \<Rightarrow> db \<Rightarrow> db" where
  "advanceProject req stage' now project0 d =
     (if status project0 = expectedStatuses stage' then
        let project1 = project0
              \<lparr>status := stageStatusMap stage',
               statusHistory := statusHistory project0
                 @ [\<lparr>entryStatus = stageStatusMap stage', changedBy = userId req,
                     entryNotes = stageName stage' @ '' payment verified''\<rparr>]\<rparr>;
            project2 =
              (if stage' = initial then project1
                 \<lparr>status := in_fabrication,
                  fabricationStartedAt := Some now,
                  statusHistory := statusHistory project1
                    @ [\<lparr>entryStatus = in_fabrication, changedBy = userId req,
                        entryNotes = ''Fabrication started after initial payment''\<rparr>]\<rparr>
               else project1)
        in saveProject project2 d
      else d)"

text \<open>\<open>verifyPayment\<close>. Project and customer are populated; \<open>payment.project._id\<close> and
  \<open>payment.customer.email\<close> throw when the populated value is \<open>null\<close>.\<close>

definition verifyPayment ::
  "request \<Rightarrow> int \<Rightarrow> string option \<Rightarrow> string option \<Rightarrow> Date \<Rightarrow> db \<Rightarrow> response \<times> db" where
  "verifyPayment req amountReceived referenceNumber' notes' now d =
     (case findById (paramsId req) (payments d) of
        None \<Rightarrow> (Failure (AppError ''Payment not found'' 404), d)
      | Some payment0 \<Rightarrow>
          if status payment0 \<noteq> submitted then
            (Failure (AppError ''Payment is not pending verification'' 400), d)
          else
            let payment1 = payment0
                  \<lparr>received := Some amountReceived,
                   status := verified,
                   verification := Some \<lparr>verifiedBy = userId req, verifiedAt = now,
                     verificationNotes = notes', referenceNumber = referenceNumber'\<rparr>,
                   statusHistory := statusHistory payment0
                     @ [\<lparr>entryStatus = verified, changedBy = userId req,
                         entryNotes = ''Verified - Amount: ''
                           @ numberToString amountReceived\<rparr>],
                   receipt := Some \<lparr>receiptNumber = generateReceiptNumber now (payments d),
                     generatedAt = now\<rparr>\<rparr>;
                d1 = d\<lparr>payments := writeBack payment1 (payments d)\<rparr>
            in (case findById (project payment0) (projects d1) of
                  None \<Rightarrow> (Failure TypeError, d1)
                | Some project0 \<Rightarrow>
                    let d2 = advanceProject req (stage payment0) now project0 d1
                    in if findById (customer payment0) (users d) = None
                       then (Failure TypeError, d2)
                       else (Success, d2)))"


subsection \<open>The admin controller: updatePaymentStages\<close>



subsection \<open>Soft-deleted documents\<close>



subsection \<open>Example data\<close>

text \<open>A project awaiting its customer's approval, with one costing version of 100000 and
  the default 30/40/30 stages, in a database that holds nothing else.\<close>

definition exampleProject :: project where
  "exampleProject =
     \<lparr>ident = 1, isDeleted = False, customer = 10, createdAt = 1709258400000,
      status = pending_customer_approval, statusHistory = [],
      blueprintCurrentVersion = 1, costingCurrentVersion = 1,
      costingVersions = [\<lparr>version = 1, totalAmount = Some (Finite 100000)\<rparr>],
      approvedAmount = None,
      approval = \<lparr>isApproved = False, approvedAt = None, approvedVersions = None\<rparr>,
      stages = \<lparr>initialStage = \<lparr>percentage = Finite 30, amount = None\<rparr>,
                midpointStage = \<lparr>percentage = Finite 40, amount = None\<rparr>,
                finalStage = \<lparr>percentage = Finite 30, amount = None\<rparr>\<rparr>,
      fabricationStartedAt = None\<rparr>"

definition exampleDb :: db where
  "exampleDb = \<lparr>users = [], appointments = [], projects = [exampleProject], payments = []\<rparr>"

text \<open>The same project after approval, with its three payments: proofs were submitted for
  the initial and the midpoint stage, none yet for the final one. The payments were created
  on 2024-12-15.\<close>

definition exampleCustomer :: user where
  "exampleCustomer = \<lparr>ident = 10, isDeleted = False, role = customer_role, isActive = True,
     firstName = ''Ana'', lastName = ''Cruz''\<rparr>"

definition examplePayment :: "ObjectId \<Rightarrow> stage \<Rightarrow> int \<Rightarrow> paymentStatus \<Rightarrow> payment" where
  "examplePayment i s e st =
     \<lparr>ident = i, isDeleted = False, customer = 10, createdAt = 1734220800000,
      status = st, statusHistory = [], project = 1, stage = s, expected = Finite (of_int e),
      received = None, paymentMethod = None, paymentProof = None,
      verification = None, rejection = None, receipt = None\<rparr>"

definition approvedProject :: "projectStatus \<Rightarrow> project" where
  "approvedProject st = exampleProject
     \<lparr>status := st, approvedAmount := Some (Finite 100000),
      stages := \<lparr>initialStage = \<lparr>percentage = Finite 30, amount = Some (Finite 30000)\<rparr>,
                 midpointStage = \<lparr>percentage = Finite 40, amount = Some (Finite 40000)\<rparr>,
                 finalStage = \<lparr>percentage = Finite 30, amount = Some (Finite 30000)\<rparr>\<rparr>\<rparr>"

definition ledgerDb :: "projectStatus \<Rightarrow> db" where
  "ledgerDb st =
     \<lparr>users = [exampleCustomer], appointments = [], projects = [approvedProject st],
      payments = [examplePayment 1 initial 30000 submitted,
                  examplePayment 2 midpoint 40000 submitted,
                  examplePayment 3 final 30000 paymentStatus.pending]\<rparr>"

text \<open>The same ledger with other payments.\<close>

definition ledgerWith :: "projectStatus \<Rightarrow> payment list \<Rightarrow> db" where
  "ledgerWith st ps = (ledgerDb st)\<lparr>payments := ps\<rparr>"

definition cashierRequest :: "ObjectId \<Rightarrow> request" where
  "cashierRequest i = \<lparr>userId = 20, userRole = cashier, paramsId = i\<rparr>"

definition customerRequest :: "ObjectId \<Rightarrow> request" where
  "customerRequest i = \<lparr>userId = 10, userRole = customer_role, paramsId = i\<rparr>"

definition exampleFile :: uploadedFile where
  "exampleFile = \<lparr>filename = ''proof-1.png'', originalName = ''receipt.png'',
     path = ''uploads/payments/proof-1.png''\<rparr>"

text \<open>A customer, one active sales-staff member, and appointments for an ocular visit on
  2024-03-01 at 10:00.\<close>

definition exampleStaff :: user where
  "exampleStaff = \<lparr>ident = 30, isDeleted = False, role = sales_staff, isActive = True,
     firstName = ''Ben'', lastName = ''Reyes''\<rparr>"

definition exampleAppointment :: "ObjectId \<Rightarrow> appointmentStatus \<Rightarrow> appointment" where
  "exampleAppointment i st =
     \<lparr>ident = i, isDeleted = False, customer = 10, createdAt = 1708416000000,
      status = st, statusHistory = [], assignedSalesStaff = Some 30,
      scheduledDate = 1709287200000, scheduledEndDate = 1709290800000,
      appointmentType = ocular_visit, siteAddress = Some ''12 Rizal St'',
      cancellation = None, salesNotes = None\<rparr>"

definition scheduleDb :: "appointment list \<Rightarrow> db" where
  "scheduleDb apts =
     \<lparr>users = [exampleCustomer, exampleStaff], appointments = apts, projects = [],
      payments = []\<rparr>"

definition staffRequest :: "ObjectId \<Rightarrow> request" where
  "staffRequest i = \<lparr>userId = 30, userRole = sales_staff, paramsId = i\<rparr>"



section \<open>Properties\<close>

subsection \<open>Auxiliary facts\<close>

























lemma find_filter_SomeD:
  assumes "find P (filter Q xs) = Some x"
  shows "x \<in> set xs \<and> P x \<and> Q x"
  using assms by (induction xs) (auto split: if_splits)

lemma findById_SomeD:
  assumes "findById i xs = Some x"
  shows "x \<in> set xs" and "ident x = i" and "\<not> isDeleted x"
  using find_filter_SomeD [of "\<lambda>d. ident d = i" "\<lambda>d. \<not> isDeleted d" xs x] assms
  by (simp_all add: findById_def findOne_def preFind_def)

lemma find_writeBack_same:
  assumes "find (\<lambda>d. ident d = i) (filter (\<lambda>d. \<not> isDeleted d) xs) = Some y"
    and "ident x = i" and "\<not> isDeleted x"
  shows "find (\<lambda>d. ident d = i) (filter (\<lambda>d. \<not> isDeleted d) (writeBack x xs)) = Some x"
  using assms by (induction xs) (auto simp: writeBack_def)

lemma findById_writeBack_same:
  assumes "findById i xs = Some y" and "ident x = i" and "\<not> isDeleted x"
  shows "findById i (writeBack x xs) = Some x"
  using find_writeBack_same [of i xs y x] assms
  by (simp add: findById_def findOne_def preFind_def)

lemma findById_writeBack_other:
  assumes "ident x \<noteq> i"
  shows "findById i (writeBack x xs) = findById i xs"
  using assms by (induction xs) (auto simp: writeBack_def findById_def findOne_def preFind_def)

lemma calculateStageAmounts_fixed [simp]:
  "ident (calculateStageAmounts p) = ident p"
  "isDeleted (calculateStageAmounts p) = isDeleted p"
  "approvedAmount (calculateStageAmounts p) = approvedAmount p"
  "status (calculateStageAmounts p) = status p"
  "statusHistory (calculateStageAmounts p) = statusHistory p"
  "customer (calculateStageAmounts p) = customer p"
  "fabricationStartedAt (calculateStageAmounts p) = fabricationStartedAt p"
  by (simp_all add: calculateStageAmounts_def Let_def split: option.splits)


lemma advanceProject_payments [simp]: "payments (advanceProject req s now p d) = payments d"
  by (simp add: advanceProject_def saveProject_def Let_def)

lemma advanceProject_users [simp]: "users (advanceProject req s now p d) = users d"
  by (simp add: advanceProject_def saveProject_def Let_def)

lemma verifyPayment_payments:
  assumes "findById (paramsId req) (payments d) = Some p" and "status p = submitted"
  shows "payments (snd (verifyPayment req a r n now d)) =
     writeBack (p\<lparr>received := Some a, status := verified,
                   verification := Some \<lparr>verifiedBy = userId req, verifiedAt = now,
                     verificationNotes = n, referenceNumber = r\<rparr>,
                   statusHistory := statusHistory p
                     @ [\<lparr>entryStatus = verified, changedBy = userId req,
                         entryNotes = ''Verified - Amount: '' @ numberToString a\<rparr>],
                   receipt := Some \<lparr>receiptNumber = generateReceiptNumber now (payments d),
                     generatedAt = now\<rparr>\<rparr>) (payments d)"
  using assms by (simp add: verifyPayment_def Let_def split: option.splits)

lemma verifyPayment_projects:
  assumes "findById (paramsId req) (payments d) = Some p" and "status p = submitted"
    and "findById (project p) (projects d) = Some prj"
  shows "projects (snd (verifyPayment req a r n now d)) =
     projects (advanceProject req (stage p) now prj d)"
  using assms by (simp add: verifyPayment_def Let_def advanceProject_def saveProject_def)

lemma findById_ledger_payment:
  "findById 1 (payments (ledgerDb st)) = Some (examplePayment 1 initial 30000 submitted)"
  "findById 2 (payments (ledgerDb st)) = Some (examplePayment 2 midpoint 40000 submitted)"
  "findById 3 (payments (ledgerDb st)) = Some (examplePayment 3 final 30000 paymentStatus.pending)"
  by (simp_all add: ledgerDb_def examplePayment_def findById_def findOne_def preFind_def)

lemma findById_ledger_project: "findById 1 (projects (ledgerDb st)) = Some (approvedProject st)"
  by (simp add: ledgerDb_def approvedProject_def exampleProject_def findById_def findOne_def
      preFind_def)

lemma findById_ledgerWith:
  "findById i (payments (ledgerWith st [examplePayment i s e pst])) = Some (examplePayment i s e pst)"
  "findById 1 (projects (ledgerWith st ps)) = Some (approvedProject st)"
  by (simp_all add: ledgerWith_def ledgerDb_def approvedProject_def exampleProject_def
      examplePayment_def findById_def findOne_def preFind_def)

lemma examplePayment_fields [simp]:
  "status (examplePayment i s e st) = st"
  "stage (examplePayment i s e st) = s"
  "project (examplePayment i s e st) = 1"
  "customer (examplePayment i s e st) = 10"
  "ident (examplePayment i s e st) = i"
  by (simp_all add: examplePayment_def)

lemma approvedProject_status [simp]: "status (approvedProject st) = st"
  by (simp add: approvedProject_def)

lemma request_fields [simp]:
  "paramsId (cashierRequest i) = i" "userId (cashierRequest i) = 20"
  "paramsId (customerRequest i) = i" "userId (customerRequest i) = 10"
  "userRole (customerRequest i) = customer_role" "userRole (cashierRequest i) = cashier"
  by (simp_all add: cashierRequest_def customerRequest_def)


lemma findOne_None_iff:
  "findOne P xs = None \<longleftrightarrow> (\<forall>x \<in> set xs. \<not> isDeleted x \<longrightarrow> \<not> P x)"
  by (auto simp add: findOne_def preFind_def find_None_iff)

lemma scanStaff_Some:
  assumes "scanStaff apts date xs = Some s"
  shows "\<exists>pre post. xs = pre @ s # post
           \<and> (\<forall>u \<in> set pre. findOne (conflictQuery (ident u) date) apts \<noteq> None)
           \<and> findOne (conflictQuery (ident s) date) apts = None"
  using assms
proof (induction xs)
  case Nil
  then show ?case by simp
next
  case (Cons x xs)
  show ?case
  proof (cases "findOne (conflictQuery (ident x) date) apts")
    case None
    with Cons.prems have "x = s" by simp
    with None have "x # xs = [] @ s # xs
        \<and> (\<forall>u \<in> set []. findOne (conflictQuery (ident u) date) apts \<noteq> None)
        \<and> findOne (conflictQuery (ident s) date) apts = None"
      by simp
    then show ?thesis by blast
  next
    case (Some c)
    with Cons.prems have "scanStaff apts date xs = Some s" by simp
    from Cons.IH [OF this] obtain pre post where
      "xs = pre @ s # post"
      "\<forall>u \<in> set pre. findOne (conflictQuery (ident u) date) apts \<noteq> None"
      "findOne (conflictQuery (ident s) date) apts = None"
      by blast
    with Some have "x # xs = (x # pre) @ s # post
        \<and> (\<forall>u \<in> set (x # pre). findOne (conflictQuery (ident u) date) apts \<noteq> None)
        \<and> findOne (conflictQuery (ident s) date) apts = None"
      by simp
    then show ?thesis by blast
  qed
qed

lemma scanStaff_None:
  assumes "scanStaff apts date xs = None"
  shows "\<forall>u \<in> set xs. findOne (conflictQuery (ident u) date) apts \<noteq> None"
  using assms by (induction xs) (auto split: option.splits)

lemma exampleAppointment_fields [simp]:
  "status (exampleAppointment i st) = st"
  "ident (exampleAppointment i st) = i"
  "customer (exampleAppointment i st) = 10"
  "scheduledDate (exampleAppointment i st) = 1709287200000"
  "isDeleted (exampleAppointment i st) = False"
  by (simp_all add: exampleAppointment_def)


lemma staffRequest_fields [simp]:
  "paramsId (staffRequest i) = i" "userId (staffRequest i) = 30"
  "userRole (staffRequest i) = sales_staff"
  by (simp_all add: staffRequest_def)

lemma newPayment_fields [simp]:
  "ident (newPayment i now x e) = i"
  "isDeleted (newPayment i now x e) = False"
  "customer (newPayment i now x e) = inCustomer x"
  "status (newPayment i now x e) = inStatus x"
  "project (newPayment i now x e) = inProject x"
  "stage (newPayment i now x e) = inStage x"
  "expected (newPayment i now x e) = e"
  "receipt (newPayment i now x e) = None"
  "createdAt (newPayment i now x e) = now"
  by (simp_all add: newPayment_def)

lemma receiptCount_created_earlier:
  assumes "\<forall>p \<in> set ps. createdAt p < newDate (getFullYear now) 0 1"
  shows "receiptCount now ps = 0"
proof -
  have "filter (\<lambda>p. receipt p \<noteq> None \<and> newDate (getFullYear now) 0 1 \<le> createdAt p
                          \<and> createdAt p < newDate (getFullYear now + 1) 0 1) ps = []"
    using assms by (auto simp add: filter_empty_conv)
  then show ?thesis by (simp add: receiptCount_def countDocuments_def Let_def)
qed

lemma january_2025:
  "getFullYear 1736501400000 = 2025" "getMonth 1736501400000 = 0"
  "getFullYear 1737381600000 = 2025" "getMonth 1737381600000 = 0"
  "newDate 2025 0 1 = 1735689600000"
  by code_simp+

lemma receipt_first_of_2025:
  assumes "receiptCount now ps = 0" and "getFullYear now = 2025" and "getMonth now = 0"
  shows "generateReceiptNumber now ps = ''RMV-RCT-202501-0001''"
proof -
  have "toString (nat 2025) = ''2025''" "padStart 2 (CHR ''0'') (toString (nat (0 + 1))) = ''01''"
    "padStart 4 (CHR ''0'') (toString (0 + 1)) = ''0001''"
    by code_simp+
  then show ?thesis using assms by (simp add: generateReceiptNumber_def Let_def)
qed

lemma writeBack_createdAt:
  assumes "\<forall>p \<in> set ps. createdAt p < t" and "createdAt x < t"
  shows "\<forall>p \<in> set (writeBack x ps). createdAt p < t"
  using assms by (auto simp add: writeBack_def)





lemma writeBack_idents: "map ident (writeBack x xs) = map ident xs"
  by (induction xs) (simp_all add: writeBack_def)













subsection \<open>C1: the payment-stage amounts after a save\<close>




subsection \<open>C3: what verifying a payment does to the project\<close>

text \<open>
  C3. For every payment in status \<open>submitted\<close> (whose project resolves), \<open>verifyPayment\<close>
  marks the payment \<open>verified\<close>; the project is left exactly as it was unless its status is
  the one expected for the stage (\<open>pending_initial_payment\<close>, \<open>pending_midpoint_payment\<close>,
  \<open>pending_final_payment\<close>); from \<open>pending_final_payment\<close> the final stage takes it to
  \<open>completed\<close>, and from \<open>pending_initial_payment\<close> the initial stage takes it to
  \<open>in_fabrication\<close> and stamps \<open>fabrication.startedAt\<close>.
\<close>

theorem verifyPayment_cascade:
  assumes found: "findById (paramsId req) (payments d) = Some p"
    and sub: "status p = submitted"
    and owning: "findById (project p) (projects d) = Some prj"
  shows "(\<exists>p'. findById (paramsId req) (payments (snd (verifyPayment req a r n now d))) = Some p'
              \<and> status p' = verified \<and> received p' = Some a)
       \<and> (status prj \<noteq> (case stage p of initial \<Rightarrow> pending_initial_payment
                                      | midpoint \<Rightarrow> pending_midpoint_payment
                                      | final \<Rightarrow> pending_final_payment) \<longrightarrow>
            projects (snd (verifyPayment req a r n now d)) = projects d)
       \<and> (stage p = final \<and> status prj = pending_final_payment \<longrightarrow>
            (\<exists>q. findById (project p) (projects (snd (verifyPayment req a r n now d))) = Some q
                \<and> status q = projectStatus.completed
                \<and> statusHistory q = statusHistory prj
                     @ [\<lparr>entryStatus = projectStatus.completed, changedBy = userId req,
                         entryNotes = ''final payment verified''\<rparr>]))
       \<and> (stage p = midpoint \<and> status prj = pending_midpoint_payment \<longrightarrow>
            (\<exists>q. findById (project p) (projects (snd (verifyPayment req a r n now d))) = Some q
                \<and> status q = midpoint_payment_verified))
       \<and> (stage p = initial \<and> status prj = pending_initial_payment \<longrightarrow>
            (\<exists>q. findById (project p) (projects (snd (verifyPayment req a r n now d))) = Some q
                \<and> status q = in_fabrication \<and> fabricationStartedAt q = Some now))"
proof -
  let ?d' = "snd (verifyPayment req a r n now d)"
  let ?p' = "p\<lparr>received := Some a, status := verified,
                   verification := Some \<lparr>verifiedBy = userId req, verifiedAt = now,
                     verificationNotes = n, referenceNumber = r\<rparr>,
                   statusHistory := statusHistory p
                     @ [\<lparr>entryStatus = verified, changedBy = userId req,
                         entryNotes = ''Verified - Amount: '' @ numberToString a\<rparr>],
                   receipt := Some \<lparr>receiptNumber = generateReceiptNumber now (payments d),
                     generatedAt = now\<rparr>\<rparr>"
  have id: "ident ?p' = paramsId req" and nd: "\<not> isDeleted ?p'"
    using findById_SomeD [OF found] by simp_all
  have "findById (paramsId req) (payments ?d') = Some ?p'"
    unfolding verifyPayment_payments [OF found sub]
    using findById_writeBack_same [OF found id nd] .
  then have c1: "\<exists>p'. findById (paramsId req) (payments ?d') = Some p'
              \<and> status p' = verified \<and> received p' = Some a"
    by simp
  have prj: "projects ?d' = projects (advanceProject req (stage p) now prj d)"
    using verifyPayment_projects [OF found sub owning] .
  have pid: "ident prj = project p" and pnd: "\<not> isDeleted prj"
    using findById_SomeD [OF owning] by simp_all
  have c2: "status prj \<noteq> (case stage p of initial \<Rightarrow> pending_initial_payment
                                      | midpoint \<Rightarrow> pending_midpoint_payment
                                      | final \<Rightarrow> pending_final_payment) \<Longrightarrow>
            projects ?d' = projects d"
    unfolding prj by (cases "stage p") (simp_all add: advanceProject_def)
  have saved: "\<And>q. ident q = project p \<Longrightarrow> \<not> isDeleted q \<Longrightarrow>
      findById (project p) (projects (saveProject q d)) = Some (calculateStageAmounts q)"
    using findById_writeBack_same [OF owning] by (simp add: saveProject_def)
  have c3: "stage p = final \<and> status prj = pending_final_payment \<Longrightarrow>
            (\<exists>q. findById (project p) (projects ?d') = Some q
                \<and> status q = projectStatus.completed
                \<and> statusHistory q = statusHistory prj
                     @ [\<lparr>entryStatus = projectStatus.completed, changedBy = userId req,
                         entryNotes = ''final payment verified''\<rparr>])"
    unfolding prj using pid pnd by (simp add: advanceProject_def Let_def saved)
  have c4: "stage p = midpoint \<and> status prj = pending_midpoint_payment \<Longrightarrow>
            (\<exists>q. findById (project p) (projects ?d') = Some q
                \<and> status q = midpoint_payment_verified)"
    unfolding prj using pid pnd by (simp add: advanceProject_def Let_def saved)
  have c5: "stage p = initial \<and> status prj = pending_initial_payment \<Longrightarrow>
            (\<exists>q. findById (project p) (projects ?d') = Some q
                \<and> status q = in_fabrication \<and> fabricationStartedAt q = Some now)"
    unfolding prj using pid pnd by (simp add: advanceProject_def Let_def saved)
  show ?thesis using c1 c2 c3 c4 c5 by blast
qed

theorem verifyPayment_cascade_witness:
  "map_option status (findById 1 (payments (snd
      (verifyPayment (cashierRequest 1) 30000 None None 1736501400000
         (ledgerDb pending_initial_payment))))) = Some verified
   \<and> map_option (\<lambda>q. (status q, fabricationStartedAt q)) (findById 1 (projects (snd
      (verifyPayment (cashierRequest 1) 30000 None None 1736501400000
         (ledgerDb pending_initial_payment))))) = Some (in_fabrication, Some 1736501400000)
   \<and> projects (snd (verifyPayment (cashierRequest 2) 40000 None None 1736501400000
         (ledgerDb pending_initial_payment))) = projects (ledgerDb pending_initial_payment)
   \<and> map_option status (findById 1 (projects (snd
      (verifyPayment (cashierRequest 3) 30000 None None 1736501400000
         (ledgerWith pending_final_payment [examplePayment 3 final 30000 submitted])))))
       = Some projectStatus.completed
   \<and> map_option status (findById 1 (projects (snd
      (verifyPayment (cashierRequest 2) 40000 None None 1736501400000
         (ledgerWith pending_midpoint_payment [examplePayment 2 midpoint 40000 submitted])))))
       = Some midpoint_payment_verified
   \<and> projects (snd (verifyPayment (cashierRequest 3) 30000 None None 1736501400000
         (ledgerWith in_installation [examplePayment 3 final 30000 submitted])))
       = projects (ledgerWith in_installation [examplePayment 3 final 30000 submitted])
   \<and> map_option status (findById 3 (payments (snd
      (verifyPayment (cashierRequest 3) 30000 None None 1736501400000
         (ledgerWith in_installation [examplePayment 3 final 30000 submitted])))))
       = Some verified"
  using verifyPayment_cascade [of "cashierRequest 1" "ledgerDb pending_initial_payment"
      "examplePayment 1 initial 30000 submitted" "approvedProject pending_initial_payment"
      30000 None None 1736501400000]
    verifyPayment_cascade [of "cashierRequest 2" "ledgerDb pending_initial_payment"
      "examplePayment 2 midpoint 40000 submitted" "approvedProject pending_initial_payment"
      40000 None None 1736501400000]
    verifyPayment_cascade [of "cashierRequest 3"
      "ledgerWith pending_final_payment [examplePayment 3 final 30000 submitted]"
      "examplePayment 3 final 30000 submitted" "approvedProject pending_final_payment"
      30000 None None 1736501400000]
    verifyPayment_cascade [of "cashierRequest 2"
      "ledgerWith pending_midpoint_payment [examplePayment 2 midpoint 40000 submitted]"
      "examplePayment 2 midpoint 40000 submitted" "approvedProject pending_midpoint_payment"
      40000 None None 1736501400000]
    verifyPayment_cascade [of "cashierRequest 3"
      "ledgerWith in_installation [examplePayment 3 final 30000 submitted]"
      "examplePayment 3 final 30000 submitted" "approvedProject in_installation"
      30000 None None 1736501400000]
    findById_ledger_payment [of pending_initial_payment]
    findById_ledger_project [of pending_initial_payment]
    findById_ledgerWith
  by auto

subsection \<open>C5: a payment is verified, and receipted, once\<close>

text \<open>
  C5. For every payment whose status is not \<open>submitted\<close>, \<open>verifyPayment\<close> fails with the
  400 error and leaves the database as it was. A payment that was \<open>submitted\<close> is
  \<open>verified\<close> after the call and carries the receipt generated by it; and whatever the
  first call did, a second call on the same payment fails with the 400 error and changes
  nothing, so no second receipt is generated.
\<close>

theorem verifyPayment_only_once:
  assumes found: "findById (paramsId req) (payments d) = Some p"
    and same: "paramsId req' = paramsId req"
  shows "(status p \<noteq> submitted \<longrightarrow>
            verifyPayment req a r n now d
              = (Failure (AppError ''Payment is not pending verification'' 400), d))
       \<and> (status p = submitted \<longrightarrow>
            (\<exists>p'. findById (paramsId req) (payments (snd (verifyPayment req a r n now d))) = Some p'
                \<and> status p' = verified
                \<and> receipt p' = Some \<lparr>receiptNumber = generateReceiptNumber now (payments d),
                                      generatedAt = now\<rparr>))
       \<and> verifyPayment req' a' r' n' now' (snd (verifyPayment req a r n now d))
            = (Failure (AppError ''Payment is not pending verification'' 400),
               snd (verifyPayment req a r n now d))"
proof (cases "status p = submitted")
  case False
  then have first: "verifyPayment req a r n now d
      = (Failure (AppError ''Payment is not pending verification'' 400), d)"
    using found by (simp add: verifyPayment_def)
  have "verifyPayment req' a' r' n' now' d
      = (Failure (AppError ''Payment is not pending verification'' 400), d)"
    using False found same by (simp add: verifyPayment_def)
  with first False show ?thesis by simp
next
  case True
  let ?p' = "p\<lparr>received := Some a, status := verified,
                   verification := Some \<lparr>verifiedBy = userId req, verifiedAt = now,
                     verificationNotes = n, referenceNumber = r\<rparr>,
                   statusHistory := statusHistory p
                     @ [\<lparr>entryStatus = verified, changedBy = userId req,
                         entryNotes = ''Verified - Amount: '' @ numberToString a\<rparr>],
                   receipt := Some \<lparr>receiptNumber = generateReceiptNumber now (payments d),
                     generatedAt = now\<rparr>\<rparr>"
  let ?d' = "snd (verifyPayment req a r n now d)"
  have id: "ident ?p' = paramsId req" and nd: "\<not> isDeleted ?p'"
    using findById_SomeD [OF found] by simp_all
  have pay: "payments ?d' = writeBack ?p' (payments d)"
    using verifyPayment_payments [OF found True] .
  have f': "findById (paramsId req) (payments ?d') = Some ?p'"
    unfolding pay using findById_writeBack_same [OF found id nd] .
  have second: "verifyPayment req' a' r' n' now' ?d'
      = (Failure (AppError ''Payment is not pending verification'' 400), ?d')"
    using f' same by (simp add: verifyPayment_def)
  show ?thesis using True f' second by simp
qed

theorem verifyPayment_only_once_witness:
  "verifyPayment (cashierRequest 1) 30000 None None 1737381600000
     (snd (verifyPayment (cashierRequest 1) 30000 None None 1736501400000
        (ledgerDb pending_initial_payment)))
   = (Failure (AppError ''Payment is not pending verification'' 400),
      snd (verifyPayment (cashierRequest 1) 30000 None None 1736501400000
        (ledgerDb pending_initial_payment)))
   \<and> verifyPayment (cashierRequest 3) 30000 None None 1736501400000
        (ledgerDb pending_initial_payment)
     = (Failure (AppError ''Payment is not pending verification'' 400),
        ledgerDb pending_initial_payment)"
  using verifyPayment_only_once [of "cashierRequest 1" "ledgerDb pending_initial_payment"
      "examplePayment 1 initial 30000 submitted" "cashierRequest 1"
      30000 None None 1736501400000 30000 None None 1737381600000]
    verifyPayment_only_once [of "cashierRequest 3" "ledgerDb pending_initial_payment"
      "examplePayment 3 final 30000 paymentStatus.pending" "cashierRequest 3"
      30000 None None 1736501400000 30000 None None 1737381600000]
    findById_ledger_payment [of pending_initial_payment]
  by simp

subsection \<open>C7: submitting and resubmitting a payment proof\<close>

text \<open>
  C7. For every payment whose status is not \<open>verified\<close> (so \<open>pending\<close>, \<open>rejected\<close> or
  \<open>submitted\<close>), \<open>submitPaymentProof\<close> called by the owning customer with an uploaded file
  succeeds: the stored payment carries the proof and the payment method, is \<open>submitted\<close>,
  and has one more history entry. For a \<open>verified\<close> payment the call fails with the 400
  error and leaves the database as it was.
\<close>

theorem submitPaymentProof_resubmission:
  assumes found: "findById (paramsId req) (payments d) = Some p"
    and owner: "customer p = userId req"
    and populated: "findById (project p) (projects d) = Some prj"
  shows "(status p \<noteq> verified \<longrightarrow>
            fst (submitPaymentProof req m (Some f) now d) = Success
          \<and> findById (paramsId req) (payments (snd (submitPaymentProof req m (Some f) now d)))
              = Some (p\<lparr>paymentProof := Some \<lparr>proofFile = f, uploadedAt = now\<rparr>,
                        paymentMethod := Some m,
                        status := submitted,
                        statusHistory := statusHistory p
                          @ [\<lparr>entryStatus = submitted, changedBy = userId req,
                              entryNotes = ''Payment proof submitted via '' @ methodName m\<rparr>]\<rparr>))
       \<and> (status p = verified \<longrightarrow>
            submitPaymentProof req m file now d
              = (Failure (AppError ''Payment has already been verified'' 400), d))"
proof -
  let ?p' = "p\<lparr>paymentProof := Some \<lparr>proofFile = f, uploadedAt = now\<rparr>,
                paymentMethod := Some m, status := submitted,
                statusHistory := statusHistory p
                  @ [\<lparr>entryStatus = submitted, changedBy = userId req,
                      entryNotes = ''Payment proof submitted via '' @ methodName m\<rparr>]\<rparr>"
  have id: "ident ?p' = paramsId req" and nd: "\<not> isDeleted ?p'"
    using findById_SomeD [OF found] by simp_all
  have wb: "findById (paramsId req) (writeBack ?p' (payments d)) = Some ?p'"
    using findById_writeBack_same [OF found id nd] .
  have ok: "status p \<noteq> verified \<Longrightarrow>
      submitPaymentProof req m (Some f) now d
        = (Success, d\<lparr>payments := writeBack ?p' (payments d)\<rparr>)"
    using found owner populated by (simp add: submitPaymentProof_def Let_def)
  have no: "status p = verified \<Longrightarrow> submitPaymentProof req m file now d
              = (Failure (AppError ''Payment has already been verified'' 400), d)"
    using found owner by (simp add: submitPaymentProof_def)
  show ?thesis using ok no wb by simp
qed

theorem submitPaymentProof_resubmission_witness:
  "fst (submitPaymentProof (customerRequest 3) gcash (Some exampleFile) 1736501400000
          (ledgerDb pending_final_payment)) = Success
   \<and> map_option status (findById 3 (payments (snd
          (submitPaymentProof (customerRequest 3) gcash (Some exampleFile) 1736501400000
             (ledgerDb pending_final_payment))))) = Some submitted
   \<and> fst (submitPaymentProof (customerRequest 1) bank_transfer (Some exampleFile) 1736501400000
          (ledgerWith pending_initial_payment [examplePayment 1 initial 30000 rejected]))
       = Success
   \<and> map_option (\<lambda>q. (status q, paymentMethod q, map_option proofFile (paymentProof q)))
        (findById 1 (payments (snd
          (submitPaymentProof (customerRequest 1) bank_transfer (Some exampleFile) 1736501400000
             (ledgerWith pending_initial_payment [examplePayment 1 initial 30000 rejected])))))
       = Some (submitted, Some bank_transfer, Some exampleFile)
   \<and> submitPaymentProof (customerRequest 1) gcash (Some exampleFile) 1736501400000
          (ledgerWith in_fabrication [examplePayment 1 initial 30000 verified])
       = (Failure (AppError ''Payment has already been verified'' 400),
          ledgerWith in_fabrication [examplePayment 1 initial 30000 verified])"
  using submitPaymentProof_resubmission [of "customerRequest 3" "ledgerDb pending_final_payment"
      "examplePayment 3 final 30000 paymentStatus.pending" "approvedProject pending_final_payment"
      gcash exampleFile 1736501400000 None]
    submitPaymentProof_resubmission [of "customerRequest 1"
      "ledgerWith pending_initial_payment [examplePayment 1 initial 30000 rejected]"
      "examplePayment 1 initial 30000 rejected" "approvedProject pending_initial_payment"
      bank_transfer exampleFile 1736501400000 None]
    submitPaymentProof_resubmission [of "customerRequest 1"
      "ledgerWith in_fabrication [examplePayment 1 initial 30000 verified]"
      "examplePayment 1 initial 30000 verified" "approvedProject in_fabrication"
      gcash exampleFile 1736501400000 "Some exampleFile"]
    findById_ledger_payment [of pending_final_payment]
    findById_ledger_project [of pending_final_payment]
    findById_ledgerWith
  by simp

subsection \<open>C6: auto-assignment of an ocular visit\<close>

text \<open>
  C6. For every \<open>ocular_visit\<close> booking whose hour lies within business hours,
  \<open>createAppointment\<close> stores one new appointment. The candidates are the active sales
  staff in collection order; a candidate is busy when a stored appointment of theirs, not
  \<open>cancelled\<close> and not \<open>no_show\<close>, has exactly the requested timestamp. Either some candidate
  is free, every candidate before the first free one is busy, and the appointment is
  \<open>scheduled\<close> with that first free candidate assigned; or every candidate is busy and the
  appointment is \<open>pending\<close> with nobody assigned.
\<close>

theorem createAppointment_auto_assignment:
  assumes hours: "9 \<le> getHours date" "getHours date < 18"
  shows "\<exists>apt. createAppointment req date ocular_visit addr now d
              = (Success, d\<lparr>appointments := appointments d @ [apt]\<rparr>)
          \<and> customer apt = userId req \<and> scheduledDate apt = date
          \<and> appointmentType apt = ocular_visit
          \<and> ((\<exists>pre s post.
                 filter (\<lambda>u. \<not> isDeleted u \<and> role u = sales_staff \<and> isActive u) (users d)
                   = pre @ s # post
               \<and> (\<forall>u \<in> set pre. \<exists>a \<in> set (appointments d). \<not> isDeleted a
                      \<and> assignedSalesStaff a = Some (ident u) \<and> scheduledDate a = date
                      \<and> status a \<noteq> appointmentStatus.cancelled \<and> status a \<noteq> no_show)
               \<and> \<not> (\<exists>a \<in> set (appointments d). \<not> isDeleted a
                      \<and> assignedSalesStaff a = Some (ident s) \<and> scheduledDate a = date
                      \<and> status a \<noteq> appointmentStatus.cancelled \<and> status a \<noteq> no_show)
               \<and> status apt = scheduled \<and> assignedSalesStaff apt = Some (ident s))
            \<or> ((\<forall>u \<in> set (filter (\<lambda>u. \<not> isDeleted u \<and> role u = sales_staff \<and> isActive u)
                                (users d)).
                    \<exists>a \<in> set (appointments d). \<not> isDeleted a
                      \<and> assignedSalesStaff a = Some (ident u) \<and> scheduledDate a = date
                      \<and> status a \<noteq> appointmentStatus.cancelled \<and> status a \<noteq> no_show)
               \<and> status apt = appointmentStatus.pending \<and> assignedSalesStaff apt = None))"
proof -
  let ?staff = "filter (\<lambda>u. \<not> isDeleted u \<and> role u = sales_staff \<and> isActive u) (users d)"
  let ?busy = "\<lambda>u. \<exists>a \<in> set (appointments d). \<not> isDeleted a
             \<and> assignedSalesStaff a = Some (ident u) \<and> scheduledDate a = date
             \<and> status a \<noteq> appointmentStatus.cancelled \<and> status a \<noteq> no_show"
  define found where "found = scanStaff (appointments d) date ?staff"
  define apt where "apt = calculateEndTime
      \<lparr>ident = newObjectId (appointments d), isDeleted = False,
       customer = userId req, createdAt = now,
       status = (if found \<noteq> None then scheduled else appointmentStatus.pending),
       statusHistory =
         [\<lparr>entryStatus = appointmentStatus.pending, changedBy = userId req,
           entryNotes = ''Appointment booked by customer''\<rparr>]
         @ (case found of
              Some staff \<Rightarrow>
                [\<lparr>entryStatus = scheduled, changedBy = userId req,
                  entryNotes = ''Auto-assigned to '' @ firstName staff @ '' ''
                    @ lastName staff\<rparr>]
            | None \<Rightarrow> []),
       assignedSalesStaff = map_option ident found,
       scheduledDate = date, scheduledEndDate = date,
       appointmentType = ocular_visit, siteAddress = addr,
       cancellation = None, salesNotes = None\<rparr>"
  have list: "findWith False (\<lambda>u. role u = sales_staff \<and> isActive u = True) (users d) = ?staff"
    by (simp add: findWith_def preFind_def conj_commute)
  have res: "createAppointment req date ocular_visit addr now d
      = (Success, d\<lparr>appointments := appointments d @ [apt]\<rparr>)"
    using hours unfolding createAppointment_def list apt_def found_def Let_def
      appointmentHours_start_def appointmentHours_end_def
    by simp
  have fields: "customer apt = userId req" "scheduledDate apt = date"
    "appointmentType apt = ocular_visit"
    "status apt = (if found \<noteq> None then scheduled else appointmentStatus.pending)"
    "assignedSalesStaff apt = map_option ident found"
    by (simp_all add: apt_def calculateEndTime_def)
  have busy: "\<And>u. findOne (conflictQuery (ident u) date) (appointments d) \<noteq> None
      \<longleftrightarrow> ?busy u"
    by (auto simp add: findOne_None_iff conflictQuery_def)
  have "(\<exists>pre s post. ?staff = pre @ s # post \<and> (\<forall>u \<in> set pre. ?busy u) \<and> \<not> ?busy s
            \<and> status apt = scheduled \<and> assignedSalesStaff apt = Some (ident s))
      \<or> ((\<forall>u \<in> set ?staff. ?busy u)
            \<and> status apt = appointmentStatus.pending \<and> assignedSalesStaff apt = None)"
  proof (cases found)
    case None
    then have "\<forall>u \<in> set ?staff. ?busy u"
      using scanStaff_None [of "appointments d" date ?staff] busy
      unfolding found_def by blast
    with None fields show ?thesis by simp
  next
    case (Some s)
    then obtain pre post where
      split: "?staff = pre @ s # post"
      and pre: "\<forall>u \<in> set pre. findOne (conflictQuery (ident u) date) (appointments d) \<noteq> None"
      and free: "findOne (conflictQuery (ident s) date) (appointments d) = None"
      using scanStaff_Some [of "appointments d" date ?staff s]
      unfolding found_def by blast
    have "\<forall>u \<in> set pre. ?busy u" using pre busy by blast
    moreover have "\<not> ?busy s" using free busy [of s] by blast
    moreover have "status apt = scheduled" "assignedSalesStaff apt = Some (ident s)"
      using Some fields by simp_all
    ultimately show ?thesis using split by blast
  qed
  with res fields(1-3) show ?thesis by blast
qed

text \<open>The two scenarios of the specification: the first booking at 2024-03-01 10:00 is
  scheduled with the only sales-staff member, the second booking of the same timestamp is
  pending.\<close>

theorem createAppointment_auto_assignment_witness:
  "map (\<lambda>a. (status a, assignedSalesStaff a))
     (appointments (snd (createAppointment (customerRequest 0) 1709287200000 ocular_visit
        (Some ''12 Rizal St'') 1708416000000 (scheduleDb []))))
   = [(scheduled, Some 30)]
   \<and> map (\<lambda>a. (status a, assignedSalesStaff a))
     (appointments (snd (createAppointment (customerRequest 0) 1709287200000 ocular_visit
        (Some ''7 Mabini St'') 1708416000000 (scheduleDb [exampleAppointment 1 scheduled]))))
   = [(scheduled, Some 30), (appointmentStatus.pending, None)]"
proof -
  have hours: "9 \<le> getHours 1709287200000" "getHours 1709287200000 < 18"
    by (simp_all add: getHours_def)
  show ?thesis
    using createAppointment_auto_assignment [OF hours, of "customerRequest 0"
        "Some ''12 Rizal St''" 1708416000000 "scheduleDb []"]
      createAppointment_auto_assignment [OF hours, of "customerRequest 0"
        "Some ''7 Mabini St''" 1708416000000 "scheduleDb [exampleAppointment 1 scheduled]"]
    by (auto simp add: scheduleDb_def exampleCustomer_def exampleStaff_def
        exampleAppointment_def Cons_eq_append_conv)
qed

subsection \<open>C8: cancelling an appointment\<close>




subsection \<open>C9: marking a no-show\<close>

text \<open>
  C9 does not hold of the code: \<open>markNoShow\<close> has no status guard. Called on a completed
  appointment it succeeds, sets the status to \<open>no_show\<close> and appends a history entry.
\<close>

theorem markNoShow_completed_appointment:
  "markNoShow (staffRequest 1) (scheduleDb [exampleAppointment 1 appointmentStatus.completed])
   = (Success,
      scheduleDb [(exampleAppointment 1 appointmentStatus.completed)
        \<lparr>status := no_show,
         statusHistory := [\<lparr>entryStatus = no_show, changedBy = 30,
                            entryNotes = ''Customer did not show up''\<rparr>]\<rparr>])"
  by (simp add: markNoShow_def scheduleDb_def exampleAppointment_def staffRequest_def
      findById_def findOne_def preFind_def writeBack_def)

subsection \<open>C2: approving a project\<close>

text \<open>
  C2 does not hold of the code. \<open>approveProject\<close> saves the project as \<open>approved\<close>, then
  creates the payments, then saves the project as \<open>pending_initial_payment\<close>: three writes
  with no transaction around them. When the latest costing version has the total \<open>0\<close>, the
  first save leaves the stage amounts unset (the hook's guard), so \<open>Payment.create\<close> rejects
  all three payments for want of \<open>amount.expected\<close> and the handler throws: the project
  stays \<open>approved\<close>, with \<open>approvedAmount = 0\<close> and one history entry, and has no payment.
  A second call is refused, the project being no longer \<open>pending_customer_approval\<close>.
\<close>

theorem approveProject_zero_total:
  "fst (approveProject (customerRequest 1) 1709287200000
      (exampleDb\<lparr>projects :=
         [exampleProject\<lparr>costingVersions := [\<lparr>version = 1, totalAmount = Some (Finite 0)\<rparr>]\<rparr>]\<rparr>))
     = Failure ValidationError
   \<and> payments (snd (approveProject (customerRequest 1) 1709287200000
      (exampleDb\<lparr>projects :=
         [exampleProject\<lparr>costingVersions := [\<lparr>version = 1, totalAmount = Some (Finite 0)\<rparr>]\<rparr>]\<rparr>)))
     = []
   \<and> map (\<lambda>q. (status q, approvedAmount q, map entryStatus (statusHistory q),
                amount (initialStage (stages q)), amount (midpointStage (stages q)),
                amount (finalStage (stages q))))
        (projects (snd (approveProject (customerRequest 1) 1709287200000
      (exampleDb\<lparr>projects :=
         [exampleProject\<lparr>costingVersions := [\<lparr>version = 1, totalAmount = Some (Finite 0)\<rparr>]\<rparr>]\<rparr>))))
     = [(approved, Some (Finite 0), [approved], None, None, None)]
   \<and> approveProject (customerRequest 1) 1709290800000
        (snd (approveProject (customerRequest 1) 1709287200000
      (exampleDb\<lparr>projects :=
         [exampleProject\<lparr>costingVersions := [\<lparr>version = 1, totalAmount = Some (Finite 0)\<rparr>]\<rparr>]\<rparr>)))
     = (Failure (AppError ''Project is not pending approval'' 400),
        snd (approveProject (customerRequest 1) 1709287200000
      (exampleDb\<lparr>projects :=
         [exampleProject\<lparr>costingVersions := [\<lparr>version = 1, totalAmount = Some (Finite 0)\<rparr>]\<rparr>]\<rparr>)))"
  by (simp add: approveProject_def exampleDb_def exampleProject_def customerRequest_def
      findById_def findOne_def preFind_def writeBack_def lastElement_def
      calculateStageAmounts_def truthy_def Let_def)

subsection \<open>C4: receipt numbers within a year\<close>

text \<open>
  C4 does not hold of the code: the sequence counts the payments that have a receipt and
  were \<^emph>\<open>created\<close> in the current year. Two payments created on 2024-12-15 and verified on
  2025-01-10 and 2025-01-20 are not counted in 2025, so both are given the receipt number
  \<open>RMV-RCT-202501-0001\<close>.
\<close>

theorem receipt_numbers_repeat:
  "map_option (\<lambda>q. map_option receiptNumber (receipt q))
     (findById 1 (payments (snd (verifyPayment (cashierRequest 2) 40000 None None 1737381600000
        (snd (verifyPayment (cashierRequest 1) 30000 None None 1736501400000
           (ledgerDb pending_initial_payment)))))))
   = Some (Some ''RMV-RCT-202501-0001'')
   \<and> map_option (\<lambda>q. map_option receiptNumber (receipt q))
     (findById 2 (payments (snd (verifyPayment (cashierRequest 2) 40000 None None 1737381600000
        (snd (verifyPayment (cashierRequest 1) 30000 None None 1736501400000
           (ledgerDb pending_initial_payment)))))))
   = Some (Some ''RMV-RCT-202501-0001'')"
proof -
  let ?d0 = "ledgerDb pending_initial_payment"
  let ?d1 = "snd (verifyPayment (cashierRequest 1) 30000 None None 1736501400000 ?d0)"
  let ?d2 = "snd (verifyPayment (cashierRequest 2) 40000 None None 1737381600000 ?d1)"
  let ?p1 = "(examplePayment 1 initial 30000 submitted)
      \<lparr>received := Some 30000, status := verified,
       verification := Some \<lparr>verifiedBy = 20, verifiedAt = 1736501400000,
         verificationNotes = None, referenceNumber = None\<rparr>,
       statusHistory := [\<lparr>entryStatus = verified, changedBy = 20,
         entryNotes = ''Verified - Amount: '' @ numberToString 30000\<rparr>],
       receipt := Some \<lparr>receiptNumber = generateReceiptNumber 1736501400000 (payments ?d0),
         generatedAt = 1736501400000\<rparr>\<rparr>"
  let ?p2 = "(examplePayment 2 midpoint 40000 submitted)
      \<lparr>received := Some 40000, status := verified,
       verification := Some \<lparr>verifiedBy = 20, verifiedAt = 1737381600000,
         verificationNotes = None, referenceNumber = None\<rparr>,
       statusHistory := [\<lparr>entryStatus = verified, changedBy = 20,
         entryNotes = ''Verified - Amount: '' @ numberToString 40000\<rparr>],
       receipt := Some \<lparr>receiptNumber = generateReceiptNumber 1737381600000 (payments ?d1),
         generatedAt = 1737381600000\<rparr>\<rparr>"
  have old0: "\<forall>p \<in> set (payments ?d0). createdAt p < 1735689600000"
    by (simp add: ledgerDb_def examplePayment_def)
  have pay1: "payments ?d1 = writeBack ?p1 (payments ?d0)"
    using verifyPayment_payments [of "cashierRequest 1" ?d0
        "examplePayment 1 initial 30000 submitted" 30000 None None 1736501400000]
      findById_ledger_payment(1) [of pending_initial_payment]
    by (simp add: examplePayment_def)
  have old1: "\<forall>p \<in> set (payments ?d1). createdAt p < 1735689600000"
    unfolding pay1 using old0 by (intro writeBack_createdAt) (simp_all add: examplePayment_def)
  have r1: "generateReceiptNumber 1736501400000 (payments ?d0) = ''RMV-RCT-202501-0001''"
    using old0 by (intro receipt_first_of_2025 receiptCount_created_earlier)
      (simp_all add: january_2025)
  have r2: "generateReceiptNumber 1737381600000 (payments ?d1) = ''RMV-RCT-202501-0001''"
    using old1 by (intro receipt_first_of_2025 receiptCount_created_earlier)
      (simp_all add: january_2025)
  have f2: "findById 2 (payments ?d1) = Some (examplePayment 2 midpoint 40000 submitted)"
    unfolding pay1
    using findById_writeBack_other [of ?p1 2 "payments ?d0"]
      findById_ledger_payment(2) [of pending_initial_payment]
    by (simp add: examplePayment_def)
  have f1: "findById 1 (payments ?d1) = Some ?p1"
    unfolding pay1
    using findById_writeBack_same [of 1 "payments ?d0" _ ?p1]
      findById_ledger_payment(1) [of pending_initial_payment]
    by (simp add: examplePayment_def)
  have pay2: "payments ?d2 = writeBack ?p2 (payments ?d1)"
    using verifyPayment_payments [of "cashierRequest 2" ?d1
        "examplePayment 2 midpoint 40000 submitted" 40000 None None 1737381600000] f2
    by (simp add: examplePayment_def)
  have g1: "findById 1 (payments ?d2) = Some ?p1"
    unfolding pay2
    using findById_writeBack_other [of ?p2 1 "payments ?d1"] f1
    by (simp add: examplePayment_def)
  have g2: "findById 2 (payments ?d2) = Some ?p2"
    unfolding pay2
    using findById_writeBack_same [of 2 "payments ?d1" _ ?p2] f2
    by (simp add: examplePayment_def)
  show ?thesis
    unfolding g1 g2 using r1 r2 by simp
qed

subsection \<open>C10: soft-deleted documents\<close>




end
